theory Spec2Isabelle
  imports Main
begin

section \<open>Text\<close>

text \<open>
  A Python \<open>str\<close> is modelled as a HOL \<open>string\<close>, the list of its characters.
  \<open>'+'\<close> is an ASCII character, so \<open>endswith\<close> and the slices \<open>s[:-1]\<close>, \<open>s[:-2]\<close>
  of \<open>split_suffix\<close> act the same on the characters of a text and on its UTF-8 bytes.
  The methods \<open>str.lower()\<close> and \<open>str.strip()\<close> follow the tables of Unicode (case mappings,
  white space), which are not part of the program: they are functions of the environment
  (\<open>str_lower\<close>, \<open>str_strip\<close> below), and nothing is assumed about them.
\<close>

definition endswith :: "string \<Rightarrow> string \<Rightarrow> bool" where
  \<comment> \<open>\<open>s.endswith(suf)\<close>\<close>
  "endswith s suf =
     (length suf \<le> length s \<and> drop (length s - length suf) s = suf)"

definition slice_to_neg :: "string \<Rightarrow> nat \<Rightarrow> string" where
  \<comment> \<open>\<open>s[:-n]\<close> for \<open>n > 0\<close>: the stop index \<open>len(s) - n\<close> is clamped at 0, as the truncating
      subtraction of \<open>nat\<close> does.\<close>
  "slice_to_neg s n = take (length s - n) s"

section \<open>The suffix parser\<close>

text \<open>
  \<^verbatim>\<open>
  def split_suffix(string: str) -> Tuple[str, str]:
      if string.endswith("++"):
          return string[:-2], '++'
      elif string.endswith("+"):
          return string[:-1], '+'
      else:
          return string, ''
  \<close>
  No operation of the body can raise on a \<open>str\<close>, so the model has no error branch.
\<close>

definition split_suffix :: "string \<Rightarrow> string \<times> string" where
  "split_suffix string =
     (if endswith string ''++'' then (slice_to_neg string 2, ''++'')
      else if endswith string ''+'' then (slice_to_neg string 1, ''+'')
      else (string, ''''))"

section \<open>Python values and errors\<close>

text \<open>
  Every exception that the code can raise is a value. \<open>RangeError\<close> stands for the
  \<open>ValueError\<close>, \<open>OverflowError\<close> or \<open>OSError\<close> of \<open>datetime.fromtimestamp\<close> on a
  timestamp outside the years 1 to 9999 (which of the three depends on the magnitude and the
  platform); \<open>RequestException\<close> for any exception of \<open>requests.get\<close> (no connection,
  timeout); \<open>BadRequestKeyError\<close> for a form without the field.
\<close>

datatype py_error =
  KeyError | IndexError | TypeError | RangeError | JSONDecodeError
  | RequestException | BadRequestKeyError

definition and_then :: "py_error + 'a \<Rightarrow> ('a \<Rightarrow> py_error + 'b) \<Rightarrow> py_error + 'b" where
  \<comment> \<open>Sequencing: an exception of the first statement ends the function.\<close>
  "and_then r f = (case r of Inl e \<Rightarrow> Inl e | Inr v \<Rightarrow> f v)"

text \<open>
  What \<open>response.json()\<close> returns: \<open>None\<close>, booleans, integers, floats, strings, lists
  and dictionaries with string keys. Floating-point numbers are outside the model: a float is
  a value of the type parameter \<open>'f\<close>, and the code only passes it on, except for the
  timestamp (see \<open>fromtimestamp\<close>). A dictionary is an association list in insertion order
  (the first entry of a key is the one looked up; a Python dictionary has each key once).
\<close>

datatype 'f pyval =
  PNone | PBool bool | PInt int | PFloat 'f | PStr string
  | PList "'f pyval list" | PDict "(string \<times> 'f pyval) list"

type_synonym 'f dict = "(string \<times> 'f pyval) list"

datatype key = KStr string | KInt int

definition seq_getitem :: "'a list \<Rightarrow> int \<Rightarrow> py_error + 'a" where
  \<comment> \<open>\<open>xs[i]\<close> on a sequence: a negative index counts from the end, an index out of range
      raises.\<close>
  "seq_getitem xs i =
     (let j = (if i < 0 then i + int (length xs) else i)
      in if j < 0 \<or> int (length xs) \<le> j then Inl IndexError else Inr (xs ! nat j))"

fun subscript :: "'f pyval \<Rightarrow> key \<Rightarrow> py_error + 'f pyval" where
  \<comment> \<open>\<open>v[k]\<close>. The keys of a dictionary read from JSON are strings, so an integer is never a
      key; a list or a string indexed by a string, and any subscript of \<open>None\<close>, a boolean or
      a number, is a \<open>TypeError\<close>.\<close>
  "subscript (PDict kvs) (KStr k) =
     (case map_of kvs k of None \<Rightarrow> Inl KeyError | Some v \<Rightarrow> Inr v)"
| "subscript (PDict kvs) (KInt i) = Inl KeyError"
| "subscript (PList xs) (KInt i) = seq_getitem xs i"
| "subscript (PList xs) (KStr k) = Inl TypeError"
| "subscript (PStr s) (KInt i) = and_then (seq_getitem s i) (\<lambda>c. Inr (PStr [c]))"
| "subscript (PStr s) (KStr k) = Inl TypeError"
| "subscript PNone k = Inl TypeError"
| "subscript (PBool b) k = Inl TypeError"
| "subscript (PInt n) k = Inl TypeError"
| "subscript (PFloat x) k = Inl TypeError"

fun subscripts :: "'f pyval \<Rightarrow> key list \<Rightarrow> py_error + 'f pyval" where
  \<comment> \<open>The chain \<open>v[k1][k2]...\<close>, evaluated from the left.\<close>
  "subscripts v [] = Inr v"
| "subscripts v (k # ks) = and_then (subscript v k) (\<lambda>w. subscripts w ks)"

section \<open>Timestamps\<close>

text \<open>
  \<open>datetime.fromtimestamp(t, tz=timezone.utc).strftime("%Y-%m-%d %H:%M:%S UTC")\<close> is a call
  of the standard library. Its model: the proleptic Gregorian date of the day \<open>t div 86400\<close>
  after 1970-01-01 and the time of day \<open>t mod 86400\<close>, for \<open>t\<close> from 0001-01-01 00:00:00 to
  9999-12-31 23:59:59, an exception outside. \<open>%Y\<close> is the year as the C library prints
  it: from the year 1000 on these are its four digits everywhere; before, the GNU C library
  prints the year without padding (\<open>999\<close>, \<open>1\<close>), which is what \<open>year_text\<close> does, while other
  libraries and later versions of Python pad it with zeros.
\<close>

record datetime =
  year :: int
  month :: int
  day :: int
  hour :: int
  minute :: int
  second :: int

definition civil_from_days :: "int \<Rightarrow> int \<times> int \<times> int" where
  \<comment> \<open>Year, month and day of the given number of days after 1970-01-01; eras of 400 years
      (146097 days) that begin on a 1st of March.\<close>
  "civil_from_days z0 =
     (let z = z0 + 719468;
          era = z div 146097;
          doe = z mod 146097;
          yoe = (doe - doe div 1460 + doe div 36524 - doe div 146096) div 365;
          doy = doe - (365 * yoe + yoe div 4 - yoe div 100);
          mp = (5 * doy + 2) div 153;
          d = doy - (153 * mp + 2) div 5 + 1;
          m = (if mp < 10 then mp + 3 else mp - 9);
          y = yoe + era * 400 + (if m \<le> 2 then 1 else 0)
      in (y, m, d))"

definition min_timestamp :: int where
  "min_timestamp = - 62135596800"

definition max_timestamp :: int where
  "max_timestamp = 253402300799"

definition utc_datetime :: "int \<Rightarrow> datetime" where
  "utc_datetime t =
     (case civil_from_days (t div 86400) of
        (y, m, d) \<Rightarrow>
          \<lparr>year = y, month = m, day = d,
           hour = t mod 86400 div 3600, minute = t mod 3600 div 60, second = t mod 60\<rparr>)"

definition from_epoch_seconds :: "int \<Rightarrow> py_error + datetime" where
  "from_epoch_seconds t =
     (if min_timestamp \<le> t \<and> t \<le> max_timestamp then Inr (utc_datetime t)
      else Inl RangeError)"

definition digit :: "int \<Rightarrow> char" where
  "digit n = ''0123456789'' ! nat (n mod 10)"

definition pad2 :: "int \<Rightarrow> string" where
  "pad2 n = [digit (n div 10), digit n]"

definition pad4 :: "int \<Rightarrow> string" where
  "pad4 n = [digit (n div 1000), digit (n div 100), digit (n div 10), digit n]"

definition year_text :: "int \<Rightarrow> string" where
  \<comment> \<open>\<open>%Y\<close> for a year from 1 to 9999.\<close>
  "year_text y =
     (if y < 10 then [digit y]
      else if y < 100 then [digit (y div 10), digit y]
      else if y < 1000 then [digit (y div 100), digit (y div 10), digit y]
      else pad4 y)"

definition first_four_digit_year :: int where
  \<comment> \<open>1000-01-01 00:00:00 UTC\<close>
  "first_four_digit_year = - 30610224000"

definition strftime :: "datetime \<Rightarrow> string" where
  \<comment> \<open>\<open>.strftime("%Y-%m-%d %H:%M:%S UTC")\<close>\<close>
  "strftime dt =
     year_text (year dt) @ ''-'' @ pad2 (month dt) @ ''-'' @ pad2 (day dt) @ '' '' @
     pad2 (hour dt) @ '':'' @ pad2 (minute dt) @ '':'' @ pad2 (second dt) @ '' UTC''"

section \<open>The environment of the program\<close>

text \<open>
  The provider is outside the program. \<open>requests_get env url params\<close> is what
  \<open>requests.get(url=url, params=params)\<close> does for this call: it raises, or it returns a
  response, of which the code reads \<open>status_code\<close> and calls \<open>json()\<close> (which raises when the
  body is not JSON). \<open>api_key\<close> is the module's global of that name. \<open>float_seconds\<close> is the
  whole number of seconds that the library reads from a float timestamp (after its rounding
  to microseconds), or its exception on \<open>nan\<close> and infinities. \<open>str_lower\<close> and \<open>str_strip\<close>
  are the methods \<open>str.lower()\<close> and \<open>str.strip()\<close> of the interpreter.
\<close>

record 'f response =
  status_code :: int
  json :: "py_error + 'f pyval"

record 'f env =
  api_key :: string
  requests_get :: "string \<Rightarrow> (string \<times> string) list \<Rightarrow> py_error + 'f response"
  float_seconds :: "'f \<Rightarrow> py_error + int"
  str_lower :: "string \<Rightarrow> string"
  str_strip :: "string \<Rightarrow> string"

fun fromtimestamp :: "'f env \<Rightarrow> 'f pyval \<Rightarrow> py_error + datetime" where
  \<comment> \<open>\<open>datetime.fromtimestamp(v, tz=timezone.utc)\<close>: an integer (a boolean is one) or a
      float, anything else is a \<open>TypeError\<close>.\<close>
  "fromtimestamp env (PInt t) = from_epoch_seconds t"
| "fromtimestamp env (PBool b) = from_epoch_seconds (if b then 1 else 0)"
| "fromtimestamp env (PFloat x) = and_then (float_seconds env x) from_epoch_seconds"
| "fromtimestamp env PNone = Inl TypeError"
| "fromtimestamp env (PStr s) = Inl TypeError"
| "fromtimestamp env (PList xs) = Inl TypeError"
| "fromtimestamp env (PDict kvs) = Inl TypeError"

section \<open>The weather fetcher\<close>

text \<open>
  \<^verbatim>\<open>
  def fetch_weather_info(city: str, suffix: str) -> Dict:
      base_url = "https://api.openweathermap.org/data/2.5/weather"
      params = {"q": city.lower(), "appid": api_key, "units": "metric"}
      response = requests.get(url=base_url, params=params)
      if response.status_code == 200:
          data = response.json()
          lat = data["coord"]["lat"]
          lon = data["coord"]["lon"]
          tz = data["timezone"]
          dt = datetime.fromtimestamp(data["dt"], tz=timezone.utc).strftime("%Y-%m-%d %H:%M:%S UTC")
          temp = data["main"]["temp"]
          feels_like = data["main"]["feels_like"]
          pressure = data["main"]["pressure"]
          humidity = data["main"]["humidity"]
          visibility = data["visibility"]
          wind_speed = data["wind"]["speed"]
          descr = data["weather"][0]["description"]
          if suffix == "+":
              return {"latitude": lat, "longitude": lon, "date": dt, "temperature": temp,
                      "feels_like": feels_like, "description": descr}
          elif suffix == "++":
              return {"latitude": lat, "longitude": lon, "timezone": tz, "date": dt,
                      "temperature": temp, "feels_like": feels_like, "pressure": pressure,
                      "humidity": humidity, "visibility": visibility,
                      "wind_speed": wind_speed, "description": descr}
          else:
              return {"temperature": temp, "feels_like": feels_like, "description": descr}
      else:
          return {"error_message": f"No weather info for {city.lower()}"}
  \<close>
  All eleven values are read, in this order, before the suffix is looked at.
\<close>

definition base_url :: string where
  "base_url = ''https://api.openweathermap.org/data/2.5/weather''"

definition params :: "'f env \<Rightarrow> string \<Rightarrow> (string \<times> string) list" where
  "params env city =
     [(''q'', str_lower env city), (''appid'', api_key env), (''units'', ''metric'')]"

definition fetch_weather_info :: "'f env \<Rightarrow> string \<Rightarrow> string \<Rightarrow> py_error + 'f dict" where
  "fetch_weather_info env city suffix =
     and_then (requests_get env base_url (params env city)) (\<lambda>response.
     if status_code response = 200 then
       and_then (json response) (\<lambda>data.
       and_then (subscripts data [KStr ''coord'', KStr ''lat'']) (\<lambda>lat.
       and_then (subscripts data [KStr ''coord'', KStr ''lon'']) (\<lambda>lon.
       and_then (subscripts data [KStr ''timezone'']) (\<lambda>tz.
       and_then (subscripts data [KStr ''dt'']) (\<lambda>ts.
       and_then (fromtimestamp env ts) (\<lambda>d.
       let dt = PStr (strftime d) in
       and_then (subscripts data [KStr ''main'', KStr ''temp'']) (\<lambda>temp.
       and_then (subscripts data [KStr ''main'', KStr ''feels_like'']) (\<lambda>feels_like.
       and_then (subscripts data [KStr ''main'', KStr ''pressure'']) (\<lambda>pressure.
       and_then (subscripts data [KStr ''main'', KStr ''humidity'']) (\<lambda>humidity.
       and_then (subscripts data [KStr ''visibility'']) (\<lambda>visibility.
       and_then (subscripts data [KStr ''wind'', KStr ''speed'']) (\<lambda>wind_speed.
       and_then (subscripts data [KStr ''weather'', KInt 0, KStr ''description'']) (\<lambda>descr.
       if suffix = ''+'' then
         Inr [(''latitude'', lat), (''longitude'', lon), (''date'', dt),
              (''temperature'', temp), (''feels_like'', feels_like),
              (''description'', descr)]
       else if suffix = ''++'' then
         Inr [(''latitude'', lat), (''longitude'', lon), (''timezone'', tz), (''date'', dt),
              (''temperature'', temp), (''feels_like'', feels_like),
              (''pressure'', pressure), (''humidity'', humidity),
              (''visibility'', visibility), (''wind_speed'', wind_speed),
              (''description'', descr)]
       else
         Inr [(''temperature'', temp), (''feels_like'', feels_like),
              (''description'', descr)])))))))))))))
     else
       Inr [(''error_message'', PStr (''No weather info for '' @ str_lower env city))])"

section \<open>The request handler\<close>

text \<open>
  \<^verbatim>\<open>
  @app.route("/", methods=["GET", "POST"])
  def index():
      weather_data = {}
      error = None
      if request.method == "POST":
          city = request.form["city"]
          city, suffix = split_suffix(city.strip().lower())
          weather_data = fetch_weather_info(city, suffix)
          if "error" in weather_data:
              error = weather_data.pop("error")
      return render_template("index.html", data=weather_data, error=error)
  \<close>
  The page itself is the template's work; the model returns what the handler passes to it.
\<close>

text \<open>The request: \<open>req_method\<close> is \<open>request.method\<close>, \<open>form\<close> is \<open>request.form\<close>.\<close>

record request =
  req_method :: string
  form :: "(string \<times> string) list"

record 'f rendered =
  template :: string
  data :: "'f dict"
  error :: "'f pyval"

definition form_getitem :: "(string \<times> string) list \<Rightarrow> string \<Rightarrow> py_error + string" where
  \<comment> \<open>\<open>request.form[k]\<close>: the first value of the field, an exception without one.\<close>
  "form_getitem f k =
     (case map_of f k of None \<Rightarrow> Inl BadRequestKeyError | Some v \<Rightarrow> Inr v)"

definition dict_contains :: "'f dict \<Rightarrow> string \<Rightarrow> bool" where
  \<comment> \<open>\<open>k in d\<close>\<close>
  "dict_contains d k = (map_of d k \<noteq> None)"

definition dict_pop :: "'f dict \<Rightarrow> string \<Rightarrow> py_error + ('f pyval \<times> 'f dict)" where
  \<comment> \<open>\<open>d.pop(k)\<close>: the value of the key and the dictionary without it.\<close>
  "dict_pop d k =
     (case map_of d k of
        None \<Rightarrow> Inl KeyError
      | Some v \<Rightarrow> Inr (v, filter (\<lambda>kv. fst kv \<noteq> k) d))"

definition render_template :: "string \<Rightarrow> 'f dict \<Rightarrow> 'f pyval \<Rightarrow> 'f rendered" where
  "render_template name d e = \<lparr>template = name, data = d, error = e\<rparr>"

definition index :: "'f env \<Rightarrow> request \<Rightarrow> py_error + 'f rendered" where
  "index env request =
     (if req_method request = ''POST'' then
        and_then (form_getitem (form request) ''city'') (\<lambda>city.
        case split_suffix (str_lower env (str_strip env city)) of
          (city, suffix) \<Rightarrow>
            and_then (fetch_weather_info env city suffix) (\<lambda>weather_data.
            if dict_contains weather_data ''error'' then
              and_then (dict_pop weather_data ''error'') (\<lambda>(error, weather_data).
              Inr (render_template ''index.html'' weather_data error))
            else Inr (render_template ''index.html'' weather_data PNone)))
      else Inr (render_template ''index.html'' [] PNone))"

section \<open>The provider's fields and the detail levels\<close>

text \<open>
  The specification names the three suffixes by a detail level; the code has no such
  type and passes the suffix string itself.
\<close>

datatype detail_level = NONE | PARTIAL | FULL

fun suffix_of_level :: "detail_level \<Rightarrow> string" where
  \<comment> \<open>Modelled from the spec: the glossary's suffix of each detail level (the type
      \<open>detail_level\<close> is the specification's, absent from the code).\<close>
  "suffix_of_level NONE = ''''"
| "suffix_of_level PARTIAL = ''+''"
| "suffix_of_level FULL = ''++''"

text \<open>
  The specification names the fields of the provider's JSON by paths: \<open>coord.lat\<close> is the
  member \<open>lat\<close> of the object that is the member \<open>coord\<close>, \<open>weather[0]\<close> the first element of
  the array \<open>weather\<close>. \<open>field_at\<close> reads a path in this sense: members of objects and
  elements of arrays only.
\<close>

fun json_member :: "'f pyval \<Rightarrow> key \<Rightarrow> 'f pyval option" where
  "json_member (PDict kvs) (KStr k) = map_of kvs k"
| "json_member (PList xs) (KInt i) =
     (if 0 \<le> i \<and> i < int (length xs) then Some (xs ! nat i) else None)"
| "json_member v k = None"

fun field_at :: "'f pyval \<Rightarrow> key list \<Rightarrow> 'f pyval option" where
  "field_at v [] = Some v"
| "field_at v (k # ks) = (case json_member v k of None \<Rightarrow> None | Some w \<Rightarrow> field_at w ks)"

record 'f observation =
  ob_lat :: "'f pyval"
  ob_lon :: "'f pyval"
  ob_timezone :: "'f pyval"
  ob_dt :: int
  ob_temp :: "'f pyval"
  ob_feels_like :: "'f pyval"
  ob_pressure :: "'f pyval"
  ob_humidity :: "'f pyval"
  ob_visibility :: "'f pyval"
  ob_wind_speed :: "'f pyval"
  ob_description :: "'f pyval"

definition expected_fields :: "'f pyval \<Rightarrow> 'f observation \<Rightarrow> bool" where
  \<comment> \<open>Modelled from the spec: the JSON of the upstream dependency (section 6) has the eleven
      fields, with the values of \<open>ob\<close>; \<open>dt\<close> is a number of seconds since the epoch that is a
      date of the years 1 to 9999. The JSON may have any other field besides.\<close>
  "expected_fields d ob \<longleftrightarrow>
     field_at d [KStr ''coord'', KStr ''lat''] = Some (ob_lat ob) \<and>
     field_at d [KStr ''coord'', KStr ''lon''] = Some (ob_lon ob) \<and>
     field_at d [KStr ''timezone''] = Some (ob_timezone ob) \<and>
     field_at d [KStr ''dt''] = Some (PInt (ob_dt ob)) \<and>
     min_timestamp \<le> ob_dt ob \<and> ob_dt ob \<le> max_timestamp \<and>
     field_at d [KStr ''main'', KStr ''temp''] = Some (ob_temp ob) \<and>
     field_at d [KStr ''main'', KStr ''feels_like''] = Some (ob_feels_like ob) \<and>
     field_at d [KStr ''main'', KStr ''pressure''] = Some (ob_pressure ob) \<and>
     field_at d [KStr ''main'', KStr ''humidity''] = Some (ob_humidity ob) \<and>
     field_at d [KStr ''visibility''] = Some (ob_visibility ob) \<and>
     field_at d [KStr ''wind'', KStr ''speed''] = Some (ob_wind_speed ob) \<and>
     field_at d [KStr ''weather'', KInt 0, KStr ''description''] = Some (ob_description ob)"

definition date_of :: "int \<Rightarrow> 'f pyval" where
  \<comment> \<open>The text of a timestamp, \<open>YYYY-MM-DD HH:MM:SS UTC\<close>.\<close>
  "date_of t = PStr (strftime (utc_datetime t))"

definition report_keys :: "string list" where
  "report_keys =
     [''latitude'', ''longitude'', ''timezone'', ''date'', ''temperature'', ''feels_like'',
      ''pressure'', ''humidity'', ''visibility'', ''wind_speed'', ''description'']"

section \<open>A provider for the examples\<close>

text \<open>
  A provider that knows London and answers 404 for any other name. In the examples a float is
  written as its decimal text, and no timestamp is a float. The texts of the examples are
  ASCII, where \<open>str.lower()\<close> and \<open>str.strip()\<close> are the two functions below.
\<close>

definition lower_char :: "char \<Rightarrow> char" where
  "lower_char c =
     (case map_of (zip ''ABCDEFGHIJKLMNOPQRSTUVWXYZ'' ''abcdefghijklmnopqrstuvwxyz'') c of
        Some l \<Rightarrow> l
      | None \<Rightarrow> c)"

definition ascii_lower :: "string \<Rightarrow> string" where
  \<comment> \<open>\<open>s.lower()\<close> for a text of ASCII characters.\<close>
  "ascii_lower s = map lower_char s"

definition ascii_isspace :: "char \<Rightarrow> bool" where
  \<comment> \<open>The ASCII characters that \<open>str.strip()\<close> removes: tab, line feed, vertical tab,
      form feed, carriage return, the four separators \<open>0x1C\<close> to \<open>0x1F\<close>, and space.\<close>
  "ascii_isspace c =
     (c \<in> set [CHR 0x09, CHR 0x0A, CHR 0x0B, CHR 0x0C, CHR 0x0D,
                CHR 0x1C, CHR 0x1D, CHR 0x1E, CHR 0x1F, CHR '' ''])"

definition ascii_strip :: "string \<Rightarrow> string" where
  \<comment> \<open>\<open>s.strip()\<close> for a text of ASCII characters: leading and trailing white space
      removed.\<close>
  "ascii_strip s = rev (dropWhile ascii_isspace (rev (dropWhile ascii_isspace s)))"

definition london_json :: "string pyval" where
  "london_json =
     PDict [
       (''coord'', PDict [(''lon'', PFloat ''-0.1257''), (''lat'', PFloat ''51.5085'')]),
       (''weather'', PList [PDict [(''id'', PInt 804), (''main'', PStr ''Clouds''),
          (''description'', PStr ''overcast clouds''), (''icon'', PStr ''04d'')]]),
       (''base'', PStr ''stations''),
       (''main'', PDict [(''temp'', PFloat ''15.2''), (''feels_like'', PFloat ''14.6''),
          (''pressure'', PInt 1012), (''humidity'', PInt 60)]),
       (''visibility'', PInt 10000),
       (''wind'', PDict [(''speed'', PFloat ''4.12''), (''deg'', PInt 240)]),
       (''dt'', PInt 1700000000),
       (''timezone'', PInt 0),
       (''name'', PStr ''London''),
       (''cod'', PInt 200)]"

definition london_observation :: "string observation" where
  "london_observation =
     \<lparr>ob_lat = PFloat ''51.5085'', ob_lon = PFloat ''-0.1257'', ob_timezone = PInt 0,
      ob_dt = 1700000000, ob_temp = PFloat ''15.2'', ob_feels_like = PFloat ''14.6'',
      ob_pressure = PInt 1012, ob_humidity = PInt 60, ob_visibility = PInt 10000,
      ob_wind_speed = PFloat ''4.12'', ob_description = PStr ''overcast clouds''\<rparr>"

definition london_response :: "string response" where
  "london_response = \<lparr>status_code = 200, json = Inr london_json\<rparr>"

definition not_found_response :: "string response" where
  "not_found_response =
     \<lparr>status_code = 404,
      json = Inr (PDict [(''cod'', PStr ''404''), (''message'', PStr ''city not found'')])\<rparr>"

definition example_get :: "string \<Rightarrow> (string \<times> string) list \<Rightarrow> py_error + string response" where
  "example_get url ps =
     (if map_of ps ''q'' = Some ''london'' then Inr london_response
      else Inr not_found_response)"

definition example_env :: "string env" where
  "example_env =
     \<lparr>api_key = ''0123456789abcdef'', requests_get = example_get,
      float_seconds = (\<lambda>x. Inl TypeError),
      str_lower = ascii_lower, str_strip = ascii_strip\<rparr>"

section \<open>Properties of the suffix parser\<close>

lemma endswith_iff: "endswith s suf \<longleftrightarrow> (\<exists>t. s = t @ suf)"
proof
  assume "endswith s suf"
  then have "s = take (length s - length suf) s @ suf"
    by (metis append_take_drop_id endswith_def)
  then show "\<exists>t. s = t @ suf" ..
next
  assume "\<exists>t. s = t @ suf"
  then obtain t where "s = t @ suf" ..
  then show "endswith s suf"
    by (simp add: endswith_def)
qed

lemma endswith_append [simp]: "endswith (t @ suf) suf"
  by (simp add: endswith_def)

lemma endswith_plus2_plus1: "endswith s ''++'' \<Longrightarrow> endswith s ''+''"
  by (auto simp: endswith_iff)

lemma split_suffix_plus2: "split_suffix (t @ ''++'') = (t, ''++'')"
  by (simp add: split_suffix_def slice_to_neg_def)

lemma split_suffix_plus1:
  "\<not> endswith t ''+'' \<Longrightarrow> split_suffix (t @ ''+'') = (t, ''+'')"
  by (auto simp: split_suffix_def slice_to_neg_def endswith_iff)

lemma split_suffix_plain:
  "\<not> endswith s ''+'' \<Longrightarrow> split_suffix s = (s, '''')"
  using endswith_plus2_plus1 [of s] by (auto simp: split_suffix_def)

lemma slice_to_neg_1: "slice_to_neg s 1 = butlast s"
  by (simp add: slice_to_neg_def butlast_conv_take)

lemma slice_to_neg_2: "slice_to_neg s 2 = butlast (butlast s)"
  by (simp add: slice_to_neg_def butlast_conv_take numeral_2_eq_2)

subsection \<open>The case analysis\<close>

text \<open>
  Claim C1. The suffix parser is total (\<open>split_suffix\<close> has a result for every string and no
  error branch) and follows the case analysis: a string that ends with \<open>++\<close> gives the string
  without its last two characters and the suffix of \<open>FULL\<close>; otherwise a string that ends with
  \<open>+\<close> gives the string without its last character and the suffix of \<open>PARTIAL\<close>; otherwise
  the string itself and the suffix of \<open>NONE\<close>. The empty string is in the third case.
\<close>

theorem split_suffix_cases:
  "((\<exists>t. s = t @ ''++'') \<longrightarrow>
      split_suffix s = (butlast (butlast s), suffix_of_level FULL)) \<and>
   (\<not> (\<exists>t. s = t @ ''++'') \<and> (\<exists>t. s = t @ ''+'') \<longrightarrow>
      split_suffix s = (butlast s, suffix_of_level PARTIAL)) \<and>
   (\<not> (\<exists>t. s = t @ ''++'') \<and> \<not> (\<exists>t. s = t @ ''+'') \<longrightarrow>
      split_suffix s = (s, suffix_of_level NONE))"
  unfolding endswith_iff [symmetric]
  by (simp add: split_suffix_def slice_to_neg_def butlast_conv_take numeral_2_eq_2)

text \<open>The three cases at \<open>london++\<close>, \<open>paris+\<close> and \<open>tokyo\<close>, and the empty string.\<close>

theorem split_suffix_cases_witness:
  "(\<exists>t. ''london++'' = t @ ''++'') \<and>
   split_suffix ''london++'' = (''london'', ''++'') \<and>
   \<not> (\<exists>t. ''paris+'' = t @ ''++'') \<and> (\<exists>t. ''paris+'' = t @ ''+'') \<and>
   split_suffix ''paris+'' = (''paris'', ''+'') \<and>
   \<not> (\<exists>t. ''tokyo'' = t @ ''++'') \<and> \<not> (\<exists>t. ''tokyo'' = t @ ''+'') \<and>
   split_suffix ''tokyo'' = (''tokyo'', '''') \<and>
   \<not> (\<exists>t. '''' = t @ ''++'') \<and> \<not> (\<exists>t. '''' = t @ ''+'') \<and>
   split_suffix '''' = ('''', '''')"
proof -
  have l: "\<exists>t. ''london++'' = t @ ''++''"
    unfolding endswith_iff [symmetric] by (simp add: endswith_def)
  have p: "\<not> (\<exists>t. ''paris+'' = t @ ''++'') \<and> (\<exists>t. ''paris+'' = t @ ''+'')"
    unfolding endswith_iff [symmetric] by (simp add: endswith_def)
  have t: "\<not> (\<exists>t. ''tokyo'' = t @ ''++'') \<and> \<not> (\<exists>t. ''tokyo'' = t @ ''+'')"
    unfolding endswith_iff [symmetric] by (simp add: endswith_def)
  have e: "\<not> (\<exists>t. '''' = t @ ''++'') \<and> \<not> (\<exists>t. '''' = t @ ''+'')"
    by simp
  have "split_suffix ''london++'' = (''london'', ''++'')"
    using l split_suffix_cases [of "''london++''"] by simp
  moreover have "split_suffix ''paris+'' = (''paris'', ''+'')"
    using p split_suffix_cases [of "''paris+''"] by simp
  moreover have "split_suffix ''tokyo'' = (''tokyo'', '''')"
    using t split_suffix_cases [of "''tokyo''"] by simp
  moreover have "split_suffix '''' = ('''', '''')"
    using e split_suffix_cases [of "''''"] by simp
  ultimately show ?thesis
    using l p t e by blast
qed


subsection \<open>At most two characters are stripped\<close>

lemma split_suffix_prefix:
  "take (length (fst (split_suffix s))) s = fst (split_suffix s) \<and>
   length s \<le> length (fst (split_suffix s)) + 2"
  by (auto simp: split_suffix_def slice_to_neg_def)

text \<open>
  Claim C7. The name that the parser returns is the input without at most its last two
  characters; of a string that ends in three or more \<open>+\<close> the last two are stripped with the
  suffix of \<open>FULL\<close>, and the other \<open>+\<close> stay in the name.
\<close>

theorem split_suffix_three_or_more:
  "take (length (fst (split_suffix s))) s = fst (split_suffix s) \<and>
   length s \<le> length (fst (split_suffix s)) + 2 \<and>
   (3 \<le> n \<longrightarrow>
      split_suffix (t @ replicate n CHR ''+'') =
        (t @ replicate (n - 2) CHR ''+'', suffix_of_level FULL))"
proof -
  have "split_suffix (t @ replicate n CHR ''+'') = (t @ replicate (n - 2) CHR ''+'', ''++'')"
    if "3 \<le> n"
  proof -
    from that have n: "n = (n - 2) + 2"
      by simp
    have "replicate ((n - 2) + 2) CHR ''+'' = replicate (n - 2) CHR ''+'' @ ''++''"
      by (simp only: replicate_add) (simp add: numeral_2_eq_2)
    with n have "t @ replicate n CHR ''+'' = (t @ replicate (n - 2) CHR ''+'') @ ''++''"
      by simp
    then show ?thesis
      using split_suffix_plus2 [of "t @ replicate (n - 2) CHR ''+''"] by simp
  qed
  then show ?thesis
    using split_suffix_prefix [of s] by simp
qed

theorem split_suffix_three_or_more_witness:
  "(3::nat) \<le> 3 \<and> split_suffix ''rome+++'' = (''rome+'', ''++'') \<and>
   (3::nat) \<le> 5 \<and> split_suffix ''+++++'' = (''+++'', ''++'')"
  using split_suffix_three_or_more [of _ 3 "''rome''"]
    split_suffix_three_or_more [of _ 5 "[]"]
  by (simp add: numeral_3_eq_3 eval_nat_numeral)

subsection \<open>Round trip\<close>

text \<open>
  Claim C8. If the parser returns \<open>(name, suffix)\<close> on \<open>s\<close>, then \<open>name\<close> followed by
  \<open>suffix\<close> is \<open>s\<close>, and \<open>suffix\<close> is one of the three suffixes. The handler calls the
  parser on \<open>city.strip().lower()\<close>, so there \<open>s\<close> is that form of the raw input.
\<close>

theorem split_suffix_roundtrip:
  "split_suffix s = (name, suffix) \<Longrightarrow>
     name @ suffix = s \<and> suffix \<in> set (map suffix_of_level [NONE, PARTIAL, FULL])"
proof -
  assume a: "split_suffix s = (name, suffix)"
  consider (full) "endswith s ''++''" | (partial) "\<not> endswith s ''++''" "endswith s ''+''"
    | (none) "\<not> endswith s ''++''" "\<not> endswith s ''+''"
    by blast
  then show ?thesis
  proof cases
    case full
    then obtain t where "s = t @ ''++''"
      by (auto simp: endswith_iff)
    with a show ?thesis
      by (simp add: split_suffix_plus2)
  next
    case partial
    then obtain t where t: "s = t @ ''+''"
      by (auto simp: endswith_iff)
    with a partial show ?thesis
      by (simp add: split_suffix_def slice_to_neg_def)
  next
    case none
    with a show ?thesis
      by (simp add: split_suffix_def)
  qed
qed

theorem split_suffix_roundtrip_witness:
  "split_suffix ''kigali+'' = (''kigali'', ''+'') \<and> ''kigali'' @ ''+'' = ''kigali+'' \<and>
   ''+'' \<in> set (map suffix_of_level [NONE, PARTIAL, FULL])"
proof -
  have h: "split_suffix ''kigali+'' = (''kigali'', ''+'')"
    by (simp add: split_suffix_def slice_to_neg_def endswith_def)
  show ?thesis
    using h split_suffix_roundtrip [OF h] by simp
qed

section \<open>Properties of the weather fetcher\<close>

lemma and_then_Inr [simp]: "and_then (Inr v) f = f v"
  by (simp add: and_then_def)

lemma and_then_Inl [simp]: "and_then (Inl e) f = Inl e"
  by (simp add: and_then_def)

lemma json_member_subscript:
  "json_member v k = Some w \<Longrightarrow> subscript v k = Inr w"
  by (cases "(v, k)" rule: json_member.cases)
     (auto simp: seq_getitem_def split: if_splits)

lemma field_at_subscripts:
  "field_at v ks = Some w \<Longrightarrow> subscripts v ks = Inr w"
proof (induction ks arbitrary: v)
  case Nil
  then show ?case by simp
next
  case (Cons k ks)
  then obtain u where u: "json_member v k = Some u" and w: "field_at u ks = Some w"
    by (auto split: option.splits)
  from u have "subscript v k = Inr u"
    by (rule json_member_subscript)
  with Cons.IH [OF w] show ?case by simp
qed

lemma fromtimestamp_in_range:
  "min_timestamp \<le> t \<Longrightarrow> t \<le> max_timestamp \<Longrightarrow>
     fromtimestamp env (PInt t) = Inr (utc_datetime t)"
  by (simp add: from_epoch_seconds_def)

text \<open>
  A response with status 200 that has the expected fields: no subscript and no conversion
  raises, and the suffix selects one of three dictionaries.
\<close>

lemma fetch_ok:
  assumes get: "requests_get env base_url (params env city) = Inr response"
    and ok: "status_code response = 200"
    and body: "json response = Inr d"
    and fields: "expected_fields d ob"
  shows "fetch_weather_info env city suffix =
     (if suffix = ''+'' then
        Inr [(''latitude'', ob_lat ob), (''longitude'', ob_lon ob),
             (''date'', date_of (ob_dt ob)), (''temperature'', ob_temp ob),
             (''feels_like'', ob_feels_like ob), (''description'', ob_description ob)]
      else if suffix = ''++'' then
        Inr [(''latitude'', ob_lat ob), (''longitude'', ob_lon ob),
             (''timezone'', ob_timezone ob), (''date'', date_of (ob_dt ob)),
             (''temperature'', ob_temp ob), (''feels_like'', ob_feels_like ob),
             (''pressure'', ob_pressure ob), (''humidity'', ob_humidity ob),
             (''visibility'', ob_visibility ob), (''wind_speed'', ob_wind_speed ob),
             (''description'', ob_description ob)]
      else
        Inr [(''temperature'', ob_temp ob), (''feels_like'', ob_feels_like ob),
             (''description'', ob_description ob)])"
proof -
  note f = fields [unfolded expected_fields_def]
  have 1: "subscripts d [KStr ''coord'', KStr ''lat''] = Inr (ob_lat ob)"
    using f by (intro field_at_subscripts) blast
  have 2: "subscripts d [KStr ''coord'', KStr ''lon''] = Inr (ob_lon ob)"
    using f by (intro field_at_subscripts) blast
  have 3: "subscripts d [KStr ''timezone''] = Inr (ob_timezone ob)"
    using f by (intro field_at_subscripts) blast
  have 4: "subscripts d [KStr ''dt''] = Inr (PInt (ob_dt ob))"
    using f by (intro field_at_subscripts) blast
  have 5: "fromtimestamp env (PInt (ob_dt ob)) = Inr (utc_datetime (ob_dt ob))"
    using f by (intro fromtimestamp_in_range) blast+
  have 6: "subscripts d [KStr ''main'', KStr ''temp''] = Inr (ob_temp ob)"
    using f by (intro field_at_subscripts) blast
  have 7: "subscripts d [KStr ''main'', KStr ''feels_like''] = Inr (ob_feels_like ob)"
    using f by (intro field_at_subscripts) blast
  have 8: "subscripts d [KStr ''main'', KStr ''pressure''] = Inr (ob_pressure ob)"
    using f by (intro field_at_subscripts) blast
  have 9: "subscripts d [KStr ''main'', KStr ''humidity''] = Inr (ob_humidity ob)"
    using f by (intro field_at_subscripts) blast
  have 10: "subscripts d [KStr ''visibility''] = Inr (ob_visibility ob)"
    using f by (intro field_at_subscripts) blast
  have 11: "subscripts d [KStr ''wind'', KStr ''speed''] = Inr (ob_wind_speed ob)"
    using f by (intro field_at_subscripts) blast
  have 12: "subscripts d [KStr ''weather'', KInt 0, KStr ''description'']
      = Inr (ob_description ob)"
    using f by (intro field_at_subscripts) blast
  show ?thesis
    unfolding fetch_weather_info_def
    by (simp only: get ok body 1 2 3 4 5 6 7 8 9 10 11 12 and_then_Inr simp_thms if_True Let_def
        date_of_def)
qed

text \<open>Any other status: the body is not read.\<close>

lemma fetch_not_ok:
  assumes get: "requests_get env base_url (params env city) = Inr response"
    and fail: "status_code response \<noteq> 200"
  shows "fetch_weather_info env city suffix =
     Inr [(''error_message'', PStr (''No weather info for '' @ str_lower env city))]"
  unfolding fetch_weather_info_def
  by (simp only: get fail and_then_Inr if_False)

subsection \<open>The text of a date\<close>

text \<open>
  The two ends of the range, and the last second of the year 999 with the first of the year
  1000: the years before 1000 are printed without padding.
\<close>

lemma strftime_range:
  "strftime (utc_datetime min_timestamp) = ''1-01-01 00:00:00 UTC''"
  "strftime (utc_datetime max_timestamp) = ''9999-12-31 23:59:59 UTC''"
  by code_simp+

lemma strftime_year_1000:
  "strftime (utc_datetime (first_four_digit_year - 1)) = ''999-12-31 23:59:59 UTC''"
  "strftime (utc_datetime first_four_digit_year) = ''1000-01-01 00:00:00 UTC''"
  by code_simp+

subsection \<open>The example provider\<close>

lemma ascii_lower_examples:
  "ascii_lower ''London'' = ''london''" "ascii_lower ''Atlantis'' = ''atlantis''"
  "ascii_lower ''london'' = ''london''" "ascii_lower ''atlantis'' = ''atlantis''"
  by code_simp+

lemma lower_London: "str_lower example_env ''London'' = ''london''"
  by (simp add: example_env_def ascii_lower_examples)

lemma lower_Atlantis: "str_lower example_env ''Atlantis'' = ''atlantis''"
  by (simp add: example_env_def ascii_lower_examples)

lemma example_get_london:
  "requests_get example_env base_url (params example_env ''London'') = Inr london_response"
  by (simp add: example_env_def example_get_def params_def ascii_lower_examples)

lemma example_get_atlantis:
  "requests_get example_env base_url (params example_env ''Atlantis'') = Inr not_found_response"
  by (simp add: example_env_def example_get_def params_def ascii_lower_examples)

lemma london_response_ok:
  "status_code london_response = 200" "json london_response = Inr london_json"
  by (simp_all add: london_response_def)

lemma not_found_response_status: "status_code not_found_response \<noteq> 200"
  by (simp add: not_found_response_def)

lemma london_expected_fields: "expected_fields london_json london_observation"
  by (simp add: expected_fields_def london_json_def london_observation_def
      min_timestamp_def max_timestamp_def)



lemma strftime_example: "strftime (utc_datetime 1700000000) = ''2023-11-14 22:13:20 UTC''"
  by code_simp

lemma date_of_example: "date_of 1700000000 = PStr ''2023-11-14 22:13:20 UTC''"
  by (simp only: date_of_def strftime_example)

subsection \<open>The three reports\<close>





text \<open>
  Claim C6. Under the same conditions the fetcher at the empty suffix of \<open>NONE\<close> returns the
  dictionary of exactly the three keys \<open>temperature\<close>, \<open>feels_like\<close> and \<open>description\<close>, with
  the values of \<open>main.temp\<close>, \<open>main.feels_like\<close> and \<open>weather[0].description\<close>.
\<close>

theorem fetch_minimal_report:
  assumes "requests_get env base_url (params env city) = Inr response"
    and "status_code response = 200"
    and "json response = Inr d"
    and "expected_fields d ob"
  shows "fetch_weather_info env city (suffix_of_level NONE) =
     Inr [(''temperature'', ob_temp ob), (''feels_like'', ob_feels_like ob),
          (''description'', ob_description ob)]"
  using fetch_ok [OF assms, of "''''"] by simp

text \<open>London, without a suffix.\<close>

theorem fetch_minimal_report_witness:
  "requests_get example_env base_url (params example_env ''London'') = Inr london_response \<and>
   status_code london_response = 200 \<and>
   json london_response = Inr london_json \<and>
   expected_fields london_json london_observation \<and>
   fetch_weather_info example_env ''London'' '''' =
     Inr [(''temperature'', PFloat ''15.2''), (''feels_like'', PFloat ''14.6''),
          (''description'', PStr ''overcast clouds'')]"
  using fetch_minimal_report [OF example_get_london london_response_ok london_expected_fields]
    example_get_london london_response_ok london_expected_fields
  by (simp add: london_observation_def)

text \<open>
  Claim C9. Under the same conditions, every suffix string that is neither \<open>+\<close> nor \<open>++\<close>
  (the empty one or any other) takes the last branch: the dictionary of the three keys
  \<open>temperature\<close>, \<open>feels_like\<close> and \<open>description\<close>.
\<close>

theorem fetch_other_suffix:
  assumes "requests_get env base_url (params env city) = Inr response"
    and "status_code response = 200"
    and "json response = Inr d"
    and "expected_fields d ob"
    and "suffix \<noteq> ''+''" and "suffix \<noteq> ''++''"
  shows "fetch_weather_info env city suffix =
     Inr [(''temperature'', ob_temp ob), (''feels_like'', ob_feels_like ob),
          (''description'', ob_description ob)]"
  using fetch_ok [OF assms(1-4), of suffix] assms(5,6) by simp

text \<open>London, with the suffix \<open>+++\<close>, which the parser never returns.\<close>

theorem fetch_other_suffix_witness:
  "requests_get example_env base_url (params example_env ''London'') = Inr london_response \<and>
   status_code london_response = 200 \<and>
   json london_response = Inr london_json \<and>
   expected_fields london_json london_observation \<and>
   ''+++'' \<noteq> ''+'' \<and> ''+++'' \<noteq> ''++'' \<and>
   fetch_weather_info example_env ''London'' ''+++'' =
     Inr [(''temperature'', PFloat ''15.2''), (''feels_like'', PFloat ''14.6''),
          (''description'', PStr ''overcast clouds'')]"
proof -
  have a: "''+++'' \<noteq> ''+''" and b: "''+++'' \<noteq> ''++''"
    by simp_all
  show ?thesis
    using fetch_other_suffix [OF example_get_london london_response_ok
        london_expected_fields a b]
      example_get_london london_response_ok london_expected_fields
    by (simp add: london_observation_def)
qed

subsection \<open>The error result\<close>

text \<open>
  Claim C3. For every name and every suffix (so for each of the three detail levels), when
  the provider answers with a status other than 200 the fetcher returns the error result with
  the message \<open>No weather info for\<close> followed by the name in lower case, that is
  \<open>city.lower()\<close>, whatever the characters of the name. The result depends on nothing else of
  the response: all failures give the same message.
\<close>

theorem fetch_error_message:
  assumes "requests_get env base_url (params env city) = Inr response"
    and "status_code response \<noteq> 200"
  shows "fetch_weather_info env city suffix =
     Inr [(''error_message'', PStr (''No weather info for '' @ str_lower env city))]"
  using assms by (rule fetch_not_ok)

text \<open>\<open>Atlantis\<close> at the level \<open>NONE\<close>: the message ends in \<open>atlantis\<close>.\<close>

theorem fetch_error_message_witness:
  "requests_get example_env base_url (params example_env ''Atlantis'') = Inr not_found_response \<and>
   status_code not_found_response \<noteq> 200 \<and>
   fetch_weather_info example_env ''Atlantis'' (suffix_of_level NONE) =
     Inr [(''error_message'', PStr ''No weather info for atlantis'')]"
  using fetch_error_message [OF example_get_atlantis not_found_response_status, of "''''"]
    example_get_atlantis not_found_response_status
  by (simp add: lower_Atlantis)

text \<open>
  Claim C10. For every name and suffix, when the provider answers with a status other than
  200 the fetcher returns a dictionary whose only key is \<open>error_message\<close>: it has no key
  \<open>error\<close> and none of the keys of a weather report.
\<close>

theorem fetch_error_keys:
  assumes "requests_get env base_url (params env city) = Inr response"
    and "status_code response \<noteq> 200"
  shows "\<exists>d. fetch_weather_info env city suffix = Inr d \<and>
     map fst d = [''error_message''] \<and>
     \<not> dict_contains d ''error'' \<and>
     set (map fst d) \<inter> set report_keys = {}"
  unfolding fetch_not_ok [OF assms]
  by (simp add: dict_contains_def report_keys_def)

text \<open>\<open>Atlantis\<close> with the suffix \<open>++\<close>.\<close>

theorem fetch_error_keys_witness:
  "requests_get example_env base_url (params example_env ''Atlantis'') = Inr not_found_response \<and>
   status_code not_found_response \<noteq> 200 \<and>
   (\<exists>d. fetch_weather_info example_env ''Atlantis'' ''++'' = Inr d \<and>
     map fst d = [''error_message''] \<and>
     \<not> dict_contains d ''error'' \<and>
     set (map fst d) \<inter> set report_keys = {})"
  using fetch_error_keys [OF example_get_atlantis not_found_response_status, of "''++''"]
    example_get_atlantis not_found_response_status
  by simp

section \<open>Properties of the request handler\<close>

text \<open>
  A POST whose fetch fails: the handler looks for the key \<open>error\<close>, the fetcher's result has
  the key \<open>error_message\<close>, so the dictionary goes to the template unchanged as \<open>data\<close> and
  \<open>error\<close> stays \<open>None\<close>.
\<close>

lemma index_fetch_failure:
  assumes "req_method request = ''POST''"
    and "map_of (form request) ''city'' = Some raw"
    and "split_suffix (str_lower env (str_strip env raw)) = (city, suffix)"
    and "requests_get env base_url (params env city) = Inr response"
    and "status_code response \<noteq> 200"
  shows "index env request =
     Inr \<lparr>template = ''index.html'',
          data = [(''error_message'', PStr (''No weather info for '' @ str_lower env city))],
          error = PNone\<rparr>"
  unfolding index_def
  by (simp add: assms(1-3) fetch_not_ok [OF assms(4,5)] form_getitem_def dict_contains_def
      render_template_def)

lemma strip_lower_Atlantis:
  "split_suffix (str_lower example_env (str_strip example_env ''Atlantis'')) = (''atlantis'', '''')"
  by code_simp

text \<open>
  Claim C4 says that on a POST whose fetch fails the handler takes the message out of the
  fetcher's result and passes it to the template as \<open>error\<close>. The code at the form field
  \<open>city = Atlantis\<close>, with a provider that answers 404: \<open>error\<close> is \<open>None\<close>, and the message
  is in \<open>data\<close> under \<open>error_message\<close>.
\<close>

theorem index_post_atlantis:
  "index example_env \<lparr>req_method = ''POST'', form = [(''city'', ''Atlantis'')]\<rparr> =
     Inr \<lparr>template = ''index.html'',
          data = [(''error_message'', PStr ''No weather info for atlantis'')],
          error = PNone\<rparr>"
proof -
  have l: "str_lower example_env ''atlantis'' = ''atlantis''"
    by (simp add: example_env_def ascii_lower_examples)
  have g: "requests_get example_env base_url (params example_env ''atlantis'')
      = Inr not_found_response"
    by (simp add: example_env_def example_get_def params_def ascii_lower_examples)
  show ?thesis
    using index_fetch_failure [OF _ _ strip_lower_Atlantis g not_found_response_status,
        of "\<lparr>req_method = ''POST'', form = [(''city'', ''Atlantis'')]\<rparr>"]
    by (simp add: l)
qed

subsection \<open>The key \<open>error\<close> is never there\<close>

text \<open>
  No result of the fetcher, report or error result, has the key \<open>error\<close>. So the branch of
  the handler that pops it is never taken: on every POST that the fetcher answers, the
  handler passes the fetcher's dictionary as \<open>data\<close> and \<open>None\<close> as \<open>error\<close>. The name and
  the suffix that the fetcher gets are those of the parser on \<open>city.strip().lower()\<close>.
\<close>

lemma and_then_InrE:
  assumes "and_then r f = Inr y"
  obtains v where "r = Inr v" and "f v = Inr y"
  using assms by (cases r) (simp_all add: and_then_def)

lemma fetch_no_error_key:
  assumes "fetch_weather_info env city suffix = Inr d"
  shows "\<not> dict_contains d ''error''"
  using assms unfolding fetch_weather_info_def Let_def
  by (auto elim!: and_then_InrE simp: dict_contains_def split: if_splits)

lemma index_data_is_fetch_result:
  assumes "req_method request = ''POST''"
    and "map_of (form request) ''city'' = Some raw"
    and "split_suffix (str_lower env (str_strip env raw)) = (city, suffix)"
    and "fetch_weather_info env city suffix = Inr d"
  shows "index env request = Inr \<lparr>template = ''index.html'', data = d, error = PNone\<rparr>"
  unfolding index_def
  by (simp add: assms fetch_no_error_key [OF assms(4)] form_getitem_def render_template_def)

text \<open>
  The scenario of the specification: \<open>London++\<close> is parsed as \<open>london\<close> and \<open>++\<close>, and the
  page gets the eleven keys of the full report, \<open>humidity\<close> 60 among them.
\<close>

lemma parse_London:
  "split_suffix (str_lower example_env (str_strip example_env ''London++'')) = (''london'', ''++'')"
  by code_simp

lemma index_post_london:
  "index example_env \<lparr>req_method = ''POST'', form = [(''city'', ''London++'')]\<rparr> =
     Inr \<lparr>template = ''index.html'',
          data = [(''latitude'', PFloat ''51.5085''), (''longitude'', PFloat ''-0.1257''),
            (''timezone'', PInt 0), (''date'', PStr ''2023-11-14 22:13:20 UTC''),
            (''temperature'', PFloat ''15.2''), (''feels_like'', PFloat ''14.6''),
            (''pressure'', PInt 1012), (''humidity'', PInt 60),
            (''visibility'', PInt 10000), (''wind_speed'', PFloat ''4.12''),
            (''description'', PStr ''overcast clouds'')],
          error = PNone\<rparr>"
proof -
  have l: "str_lower example_env ''london'' = ''london''"
    by (simp add: example_env_def ascii_lower_examples)
  have g: "requests_get example_env base_url (params example_env ''london'')
      = Inr london_response"
    by (simp add: example_env_def example_get_def params_def ascii_lower_examples)
  have f: "fetch_weather_info example_env ''london'' ''++'' =
     Inr [(''latitude'', PFloat ''51.5085''), (''longitude'', PFloat ''-0.1257''),
          (''timezone'', PInt 0), (''date'', PStr ''2023-11-14 22:13:20 UTC''),
          (''temperature'', PFloat ''15.2''), (''feels_like'', PFloat ''14.6''),
          (''pressure'', PInt 1012), (''humidity'', PInt 60),
          (''visibility'', PInt 10000), (''wind_speed'', PFloat ''4.12''),
          (''description'', PStr ''overcast clouds'')]"
    using fetch_ok [OF g london_response_ok london_expected_fields, of "''++''"]
    by (simp add: london_observation_def date_of_example)
  show ?thesis
    by (rule index_data_is_fetch_result [OF _ _ parse_London f]) simp_all
qed

end
